theory Spec2Isabelle
  imports Complex_Main "HOL-Library.Sublist" "HOL-Library.Char_ord" "HOL-Library.Log_Nat"
    "HOL-Library.List_Lexorder" "HOL-Library.Product_Lexorder" "HOL-Library.AList"
begin

section \<open>Strings of the extraction script\<close>

text \<open>
  The script \<^verbatim>\<open>extract_pdf.py\<close> works on Python strings, which are sequences of code
  points. The model covers the code points U+0000 to U+00FF (ISO 8859-1), one \<^typ>\<open>char\<close>
  each; they contain every keyword, category name and placeholder of the source. A non-ASCII
  letter of a literal is written by its code point, for instance \<open>CHR 0xE1\<close> for the
  a with acute accent.

  A cell of an extracted table is a string or \<^verbatim>\<open>None\<close>.
\<close>

type_synonym cell = "string option"
type_synonym row = "cell list"

text \<open>\<^verbatim>\<open>str.isspace\<close> on one code point of the range: the ASCII white space
  U+0009 to U+000D, U+001C to U+0020, and U+0085, U+00A0.\<close>

definition isspace :: "char \<Rightarrow> bool" where
  "isspace c = (let n = (of_char c :: nat) in
     (9 \<le> n \<and> n \<le> 13) \<or> (28 \<le> n \<and> n \<le> 32) \<or> n = 133 \<or> n = 160)"

text \<open>\<^verbatim>\<open>s.strip()\<close>: white space removed at both ends.\<close>

definition strip :: "string \<Rightarrow> string" where
  "strip s = rev (dropWhile isspace (rev (dropWhile isspace s)))"

text \<open>\<^verbatim>\<open>s.replace(a, b)\<close> for one-character strings \<open>a\<close> and \<open>b\<close>: every
  occurrence is replaced.\<close>

definition replace :: "char \<Rightarrow> char \<Rightarrow> string \<Rightarrow> string" where
  "replace a b s = map (\<lambda>c. if c = a then b else c) s"

text \<open>\<^verbatim>\<open>s.lower()\<close>: in the range, the letters A to Z and U+00C0 to U+00DE
  (without the multiplication sign U+00D7) move up by 32, every other code point stays.\<close>

definition lower_char :: "char \<Rightarrow> char" where
  "lower_char c = (let n = (of_char c :: nat) in
     if (65 \<le> n \<and> n \<le> 90) \<or> (192 \<le> n \<and> n \<le> 222 \<and> n \<noteq> 215)
     then char_of (n + 32) else c)"

definition lower :: "string \<Rightarrow> string" where
  "lower s = map lower_char s"

text \<open>\<^verbatim>\<open>a in s\<close> for strings: \<open>a\<close> occurs in \<open>s\<close> as a contiguous substring.\<close>

fun starts_with :: "string \<Rightarrow> string \<Rightarrow> bool" where
  "starts_with s [] = True"
| "starts_with [] (a # as) = False"
| "starts_with (c # s) (a # as) = (c = a \<and> starts_with s as)"

fun str_in :: "string \<Rightarrow> string \<Rightarrow> bool" where
  "str_in a [] = (a = [])"
| "str_in a (c # s) = (starts_with (c # s) a \<or> str_in a s)"

text \<open>\<^verbatim>\<open>sep.join(xs)\<close>.\<close>

fun join :: "string \<Rightarrow> string list \<Rightarrow> string" where
  "join sep [] = []"
| "join sep [x] = x"
| "join sep (x # y # xs) = x @ sep @ join sep (y # xs)"

text \<open>The characters the source writes with an escape.\<close>

definition backslash :: char where "backslash = CHR 0x5C"
definition apostrophe :: char where "apostrophe = CHR 0x27"
definition newline :: char where "newline = CHR 0x0A"
definition space :: char where "space = CHR 0x20"

section \<open>Cell cleaning: \<^verbatim>\<open>limpar\<close>\<close>

text \<open>
  \<^verbatim>\<open>
  def limpar(val):
      if val is None:
          return None
      v = str(val).strip().replace('\n', ' ')
      if v in ('', '\\', '-', '\\\\', "\\\\'", 'ND', 'N.A.', 'N/A', '--'):
          return None
      return v
  \<close>
  The tuple of the source has nine members: the empty string, one backslash, a dash, two
  backslashes, two backslashes followed by an apostrophe, and the four words.
\<close>

definition limpar_tokens :: "string list" where
  "limpar_tokens = [[], [backslash], ''-'', [backslash, backslash],
     [backslash, backslash, apostrophe], ''ND'', ''N.A.'', ''N/A'', ''--'']"

definition limpar_texto :: "string \<Rightarrow> string" where
  "limpar_texto s = replace newline space (strip s)"

definition limpar :: "cell \<Rightarrow> string option" where
  "limpar val = (case val of
       None \<Rightarrow> None
     | Some s \<Rightarrow> (let v = limpar_texto s in
         if v \<in> set limpar_tokens then None else Some v))"

text \<open>The placeholder set as the specification lists it: eight tokens.\<close>

definition spec_placeholders :: "string list" where
  "spec_placeholders = [[], [backslash], ''-'', [backslash, backslash],
     ''ND'', ''N.A.'', ''N/A'', ''--'']"

section \<open>Row classification: \<^verbatim>\<open>eh_cabecalho\<close>, \<^verbatim>\<open>eh_veiculo\<close>\<close>

text \<open>The accented letters of the keyword and category lists, by code point.\<close>

abbreviation a_acute :: char where "a_acute \<equiv> CHR 0xE1"
abbreviation a_circ :: char where "a_circ \<equiv> CHR 0xE2"
abbreviation a_tilde :: char where "a_tilde \<equiv> CHR 0xE3"
abbreviation c_cedilla :: char where "c_cedilla \<equiv> CHR 0xE7"
abbreviation e_acute :: char where "e_acute \<equiv> CHR 0xE9"
abbreviation i_acute :: char where "i_acute \<equiv> CHR 0xED"
abbreviation o_acute :: char where "o_acute \<equiv> CHR 0xF3"
abbreviation o_tilde :: char where "o_tilde \<equiv> CHR 0xF5"

text \<open>
  \<^verbatim>\<open>
  CATEGORIAS = [
      'sub compacto', 'compacto', 'm\'edio', 'grande', 'extra grande',
      'utilit\'ario esportivo compacto', 'utilit\'ario esportivo grande',
      'utilit\'ario esportivo grande 4x4', 'fora de estrada compacto',
      'fora de estrada grande', 'minivan', 'comercial',
      'picape compacta', 'picape', 'esportivo',
  ]
  \<close>
  (in this comment an accent is written before its letter).
\<close>

definition CATEGORIAS :: "string list" where
  "CATEGORIAS = [
     ''sub compacto'', ''compacto'', ''m'' @ [e_acute] @ ''dio'', ''grande'', ''extra grande'',
     ''utilit'' @ [a_acute] @ ''rio esportivo compacto'',
     ''utilit'' @ [a_acute] @ ''rio esportivo grande'',
     ''utilit'' @ [a_acute] @ ''rio esportivo grande 4x4'', ''fora de estrada compacto'',
     ''fora de estrada grande'', ''minivan'', ''comercial'',
     ''picape compacta'', ''picape'', ''esportivo'']"

text \<open>The keyword list written inside \<^verbatim>\<open>eh_cabecalho\<close>, in the source's order.\<close>

definition PALAVRAS_CABECALHO :: "string list" where
  "PALAVRAS_CABECALHO = [
     ''categoria'', ''marca'', ''modelo'', ''vers'' @ [a_tilde] @ ''o'', ''motor'',
     ''transmiss'' @ [a_tilde] @ ''o'',
     ''combust'' @ [i_acute] @ ''vel'', ''poluentes'', ''quilometragem'',
     ''emiss'' @ [o_tilde] @ ''es'',
     ''classifica'' @ [c_cedilla, a_tilde] @ ''o'', ''programa brasileiro'',
     ''hidr'' @ [a_acute] @ ''ulica'', ''mec'' @ [a_circ] @ ''nica'',
     ''eletro-hidr'' @ [a_acute] @ ''ulica'', ''manual (m)'', ''autom'' @ [a_acute] @ ''tica'',
     ''nmog+nox'',
     ''g'' @ [a_acute] @ ''s efeito'', ''consumo energ'' @ [e_acute] @ ''tico'',
     ''menores n'' @ [i_acute] @ ''veis'',
     ''maiores n'' @ [i_acute] @ ''veis'', ''www.'', ''inmetro'', ''conpet'', ''ibama'',
     ''tipo de'', ''propuls'' @ [a_tilde] @ ''o'', ''compara'' @ [c_cedilla, a_tilde] @ ''o'',
     ''relativa'', ''absoluta'',
     ''autonomia'', ''ar'' @ [newline] @ ''cond'', ''dire'' @ [c_cedilla, a_tilde] @ ''o'',
     ''f'' @ [o_acute] @ ''ssil'',
     ''cidade'' @ [newline] @ ''(km'', ''estrada'' @ [newline] @ ''(km'', ''valores em km'']"

text \<open>Python's truth value of a cell: \<^verbatim>\<open>None\<close> and the empty string are false.\<close>

definition truthy :: "cell \<Rightarrow> bool" where
  "truthy c = (case c of None \<Rightarrow> False | Some s \<Rightarrow> s \<noteq> [])"

text \<open>
  \<^verbatim>\<open>
  def eh_cabecalho(row):
      texto = ' '.join([str(c) for c in row if c]).lower()
      return any(kw in texto for kw in [ ... ])
  \<close>
\<close>

definition texto_da_linha :: "row \<Rightarrow> string" where
  "texto_da_linha row = lower (join [space] (map the (filter truthy row)))"

definition eh_cabecalho :: "row \<Rightarrow> bool" where
  "eh_cabecalho row = list_ex (\<lambda>kw. str_in kw (texto_da_linha row)) PALAVRAS_CABECALHO"

text \<open>
  \<^verbatim>\<open>
  def eh_veiculo(row):
      if not row or not row[0]:
          return False
      celula = str(row[0]).strip().lower()
      return any(cat in celula for cat in CATEGORIAS)
  \<close>
  The function reads the global list; \<open>eh_veiculo_de\<close> is the same body with the list as
  an argument, so that the order of the list can be varied.
\<close>

definition eh_veiculo_de :: "string list \<Rightarrow> row \<Rightarrow> bool" where
  "eh_veiculo_de cats row = (case row of
       [] \<Rightarrow> False
     | c # _ \<Rightarrow> (case c of
           None \<Rightarrow> False
         | Some s \<Rightarrow> if s = [] then False
             else list_ex (\<lambda>cat. str_in cat (lower (strip s))) cats))"

definition eh_veiculo :: "row \<Rightarrow> bool" where
  "eh_veiculo row = eh_veiculo_de CATEGORIAS row"

section \<open>Extraction: \<^verbatim>\<open>extrair\<close>\<close>

text \<open>
  \<^verbatim>\<open>
  linhas = []
  ...
      for i, page in enumerate(pdf.pages):
          for table in page.extract_tables():
              if not table:
                  continue
              for row in table:
                  if row and len(row) >= 25:
                      if not eh_cabecalho(row) and eh_veiculo(row):
                          linhas.append(row)
  return linhas
  \<close>
  The PDF library is outside the repository: the model takes, for each page in order, the
  list of tables that \<^verbatim>\<open>page.extract_tables()\<close> returns, a table being a list of rows.
\<close>

fun extrair_tabela :: "row list \<Rightarrow> row list \<Rightarrow> row list" where
  "extrair_tabela linhas [] = linhas"
| "extrair_tabela linhas (row # table) =
     extrair_tabela
       (if row \<noteq> [] \<and> 25 \<le> length row
        then (if \<not> eh_cabecalho row \<and> eh_veiculo row then linhas @ [row] else linhas)
        else linhas)
       table"

fun extrair_pagina :: "row list \<Rightarrow> row list list \<Rightarrow> row list" where
  "extrair_pagina linhas [] = linhas"
| "extrair_pagina linhas (table # tables) =
     extrair_pagina (if table = [] then linhas else extrair_tabela linhas table) tables"

fun extrair_paginas :: "row list \<Rightarrow> row list list list \<Rightarrow> row list" where
  "extrair_paginas linhas [] = linhas"
| "extrair_paginas linhas (page # pages) =
     extrair_paginas (extrair_pagina linhas page) pages"

definition extrair :: "row list list list \<Rightarrow> row list" where
  "extrair pages = extrair_paginas [] pages"

text \<open>The header text as the specification words it: all non-null cells joined, empty
  strings included.\<close>

definition spec_texto_da_linha :: "row \<Rightarrow> string" where
  "spec_texto_da_linha row = lower (join [space] (map the (filter (\<lambda>c. c \<noteq> None) row)))"

section \<open>Python errors and floats\<close>

datatype erro = ValueError | TypeError | IndexError | KeyError | AttributeError

text \<open>
  A Python \<^verbatim>\<open>float\<close> is an IEEE 754 binary64 number. A finite one is given by its exact
  value, a rational; the sign of a zero is not kept (\<^verbatim>\<open>-0.0 == 0.0\<close> in Python, and the
  script never tells them apart). In a data frame a missing number is \<open>NaN\<close>.
\<close>

datatype pyfloat = Finite rat | PInf | NInf | NaN

text \<open>\<open>expoente2 x\<close> is the integer \<open>e\<close> with \<open>2^e \<le> x < 2^(e+1)\<close>, for \<open>x > 0\<close>.\<close>

definition expoente2 :: "rat \<Rightarrow> int" where
  "expoente2 x = (if 1 \<le> x then bitlen \<lfloor>x\<rfloor> - 1
     else - bitlen (\<lceil>1 / x\<rceil> - 1))"

text \<open>Rounding to the nearest integer, a tie going to the even one.\<close>

definition round_half_even :: "rat \<Rightarrow> int" where
  "round_half_even q = (let f = \<lfloor>q\<rfloor>; r = q - of_int f in
     if r < 1 / 2 then f else if 1 / 2 < r then f + 1
     else if even f then f else f + 1)"

text \<open>\<open>escala2 k x\<close> is \<open>x\<close> times \<open>2^k\<close>, and \<open>escala10 k x\<close> is \<open>x\<close> times \<open>10^k\<close>,
  for an integer \<open>k\<close> of either sign.\<close>

definition escala2 :: "int \<Rightarrow> rat \<Rightarrow> rat" where
  "escala2 k x = (if 0 \<le> k then x * 2 ^ nat k else x / 2 ^ nat (- k))"

definition escala10 :: "int \<Rightarrow> rat \<Rightarrow> rat" where
  "escala10 k x = (if 0 \<le> k then x * 10 ^ nat k else x / 10 ^ nat (- k))"

text \<open>
  Rounding of an exact value to binary64, to nearest and ties to even: 53 significant bits,
  the least exponent -1022 (below it the spacing stays \<open>2^-1074\<close>), and infinity from
  \<open>2^1024\<close> on. Every arithmetic operation on floats is the exact operation followed by
  this rounding.
\<close>

definition round64 :: "rat \<Rightarrow> pyfloat" where
  "round64 x = (if x = 0 then Finite 0 else
     (let k = max (expoente2 \<bar>x\<bar>) (- 1022) - 52;
          y = escala2 k (of_int (round_half_even (escala2 (- k) \<bar>x\<bar>)))
      in if 2 ^ 1024 \<le> y then (if 0 < x then PInf else NInf)
         else Finite (sgn x * y)))"

fun fmul :: "pyfloat \<Rightarrow> pyfloat \<Rightarrow> pyfloat" where
  "fmul (Finite a) (Finite b) = round64 (a * b)"
| "fmul NaN y = NaN"
| "fmul x NaN = NaN"
| "fmul (Finite a) PInf = (if a = 0 then NaN else if 0 < a then PInf else NInf)"
| "fmul (Finite a) NInf = (if a = 0 then NaN else if 0 < a then NInf else PInf)"
| "fmul PInf (Finite b) = (if b = 0 then NaN else if 0 < b then PInf else NInf)"
| "fmul NInf (Finite b) = (if b = 0 then NaN else if 0 < b then NInf else PInf)"
| "fmul PInf PInf = PInf"
| "fmul PInf NInf = NInf"
| "fmul NInf PInf = NInf"
| "fmul NInf NInf = PInf"

fun fadd :: "pyfloat \<Rightarrow> pyfloat \<Rightarrow> pyfloat" where
  "fadd (Finite a) (Finite b) = round64 (a + b)"
| "fadd NaN y = NaN"
| "fadd x NaN = NaN"
| "fadd PInf NInf = NaN"
| "fadd NInf PInf = NaN"
| "fadd PInf y = PInf"
| "fadd NInf y = NInf"
| "fadd x PInf = PInf"
| "fadd x NInf = NInf"

text \<open>\<^verbatim>\<open>numpy.rint\<close>: the nearest integer, ties to even; the result is a float.\<close>

fun rint :: "pyfloat \<Rightarrow> pyfloat" where
  "rint (Finite a) = Finite (of_int (round_half_even a))"
| "rint x = x"

text \<open>Division by a positive finite float, given by its value.\<close>

fun fdiv_por :: "rat \<Rightarrow> pyfloat \<Rightarrow> pyfloat" where
  "fdiv_por d (Finite a) = round64 (a / d)"
| "fdiv_por d x = x"

text \<open>
  \<^verbatim>\<open>Series.round(2)\<close> of a float column is \<^verbatim>\<open>numpy.round(x, 2)\<close>, which computes
  \<^verbatim>\<open>rint(x * 100.0) / 100.0\<close>.
\<close>

definition round2 :: "pyfloat \<Rightarrow> pyfloat" where
  "round2 x = fdiv_por 100 (rint (fmul x (Finite 100)))"

section \<open>Numeric cleaning: \<^verbatim>\<open>para_numero\<close>\<close>

text \<open>
  \<^verbatim>\<open>float(s)\<close> for a string: white space is removed at both ends; an underscore must
  stand between two digits and is dropped; then the text is an optional sign followed by
  \<^verbatim>\<open>inf\<close>, \<^verbatim>\<open>infinity\<close> or \<^verbatim>\<open>nan\<close> in any case, or by a decimal number (digits
  with at most one point, and at least one digit) and an optional exponent. Anything else
  raises \<^verbatim>\<open>ValueError\<close>. The decimal digits of the range are \<open>0\<close> to \<open>9\<close>. The result is
  the float nearest to the decimal value.
\<close>

definition isdigit :: "char \<Rightarrow> bool" where
  "isdigit c = (48 \<le> (of_char c :: nat) \<and> (of_char c :: nat) \<le> 57)"

definition digits_val :: "string \<Rightarrow> int" where
  "digits_val ds = foldl (\<lambda>a c. 10 * a + ((of_char c :: int) - 48)) 0 ds"

fun underscores_ok :: "char \<Rightarrow> string \<Rightarrow> bool" where
  "underscores_ok prev [] = (prev \<noteq> CHR ''_'')"
| "underscores_ok prev (c # s) =
     ((if c = CHR ''_'' then isdigit prev
       else if prev = CHR ''_'' then isdigit c else True) \<and>
      underscores_ok c s)"

definition split_sign :: "string \<Rightarrow> bool \<times> string" where
  "split_sign s = (case s of
       [] \<Rightarrow> (False, [])
     | c # r \<Rightarrow> if c = CHR ''-'' then (True, r)
         else if c = CHR ''+'' then (False, r) else (False, s))"

definition parse_exponent :: "string \<Rightarrow> int option" where
  "parse_exponent s = (case s of
       [] \<Rightarrow> Some 0
     | c # r \<Rightarrow> if c = CHR ''e'' \<or> c = CHR ''E''
         then (case split_sign r of (neg, ds) \<Rightarrow>
           if ds \<noteq> [] \<and> list_all isdigit ds
           then Some (if neg then - digits_val ds else digits_val ds)
           else None)
         else None)"

definition parse_number :: "string \<Rightarrow> rat option" where
  "parse_number s = (let ip = takeWhile isdigit s; r1 = dropWhile isdigit s in
     case (case r1 of
             [] \<Rightarrow> ([], [])
           | c # r \<Rightarrow> if c = CHR ''.'' then (takeWhile isdigit r, dropWhile isdigit r)
               else ([], r1)) of
       (fp, r2) \<Rightarrow>
         if ip = [] \<and> fp = [] then None
         else (case parse_exponent r2 of
             None \<Rightarrow> None
           | Some ex \<Rightarrow>
               Some (escala10 (ex - int (length fp)) (of_int (digits_val (ip @ fp))))))"

definition py_float :: "string \<Rightarrow> erro + pyfloat" where
  "py_float s0 = (let s = strip s0 in
     if \<not> underscores_ok (CHR 0x00) s then Inl ValueError
     else (case split_sign (filter (\<lambda>c. c \<noteq> CHR ''_'') s) of (neg, r) \<Rightarrow>
       if lower r = ''inf'' \<or> lower r = ''infinity'' then Inr (if neg then NInf else PInf)
       else if lower r = ''nan'' then Inr NaN
       else (case parse_number r of
           None \<Rightarrow> Inl ValueError
         | Some q \<Rightarrow> Inr (round64 (if neg then - q else q)))))"

text \<open>
  \<^verbatim>\<open>
  def para_numero(val):
      v = limpar(val)
      if v is None:
          return None
      v = v.replace(',', '.')
      try:
          return float(v)
      except (ValueError, TypeError):
          return None
  \<close>
  An exception that the handler does not name would leave the function: \<open>Inl\<close>.
\<close>

definition para_numero :: "cell \<Rightarrow> erro + pyfloat option" where
  "para_numero val = (case limpar val of
       None \<Rightarrow> Inr None
     | Some v \<Rightarrow> (case py_float (replace (CHR '','') (CHR ''.'') v) of
           Inr x \<Rightarrow> Inr (Some x)
         | Inl e \<Rightarrow> if e = ValueError \<or> e = TypeError then Inr None else Inl e))"

section \<open>Row-to-record mapping: \<^verbatim>\<open>parsear\<close>\<close>

text \<open>
  \<^verbatim>\<open>COLUNAS_PDF\<close> maps the 28 positions 0 to 27 to 28 pairwise different column titles;
  \<open>Pdf idx\<close> stands for the title at position \<open>idx\<close>. The other constructors are the
  titles of the columns that post-processing adds. A record is a Python dictionary from
  column titles to values: an association list in insertion order, read with \<open>map_of\<close>;
  \<open>definir nome v\<close> is the assignment \<^verbatim>\<open>registro[nome] = v\<close>, which replaces the
  value of a title that is present and appends a new title at the end. A row of a data
  frame is such a list too, the titles being the columns of the frame.
\<close>

datatype coluna = Pdf nat
  | Transmissao_Tipo | Transmissao_Velocidades | Combustivel_Descricao
  | Combinado_Gasolina | Combinado_Etanol | Combinado_Eletrico
  | Faixa_CO2 | Zero_Emissao | Eletrificado

datatype valor = Nulo | Texto string | Numero pyfloat | Inteiro int | Logico bool

type_synonym registro = "(coluna \<times> valor) list"

definition definir :: "coluna \<Rightarrow> valor \<Rightarrow> registro \<Rightarrow> registro" where
  "definir nome v registro = AList.update nome v registro"

definition COLUNAS_PDF :: "(nat \<times> coluna) list" where
  "COLUNAS_PDF = map (\<lambda>idx. (idx, Pdf idx)) [0..<28]"

definition COLUNAS_NUMERICAS :: "nat list" where
  "COLUNAS_NUMERICAS = [10, 11, 12, 14, 15, 16, 17, 18, 19, 20, 21, 22, 23, 24]"

text \<open>\<^verbatim>\<open>n_colunas_esperadas = max(COLUNAS_PDF.keys()) + 1\<close>\<close>

definition n_colunas_esperadas :: nat where
  "n_colunas_esperadas = Max (set (map fst COLUNAS_PDF)) + 1"

text \<open>
  \<^verbatim>\<open>
  while len(row) < n_colunas_esperadas:
      row.append(None)
  \<close>
\<close>

function normalizar :: "nat \<Rightarrow> row \<Rightarrow> row" where
  "normalizar n row = (if length row < n then normalizar n (row @ [None]) else row)"
  by pat_completeness auto
termination
  by (relation "measure (\<lambda>(n, row). n - length row)") auto

text \<open>\<^verbatim>\<open>row[idx]\<close> for \<open>idx \<ge> 0\<close>: \<^verbatim>\<open>IndexError\<close> beyond the end of the list.\<close>

definition item :: "row \<Rightarrow> nat \<Rightarrow> erro + cell" where
  "item row idx = (if idx < length row then Inr (row ! idx) else Inl IndexError)"

definition valor_texto :: "string option \<Rightarrow> valor" where
  "valor_texto v = (case v of None \<Rightarrow> Nulo | Some s \<Rightarrow> Texto s)"

definition valor_numero :: "pyfloat option \<Rightarrow> valor" where
  "valor_numero v = (case v of None \<Rightarrow> Nulo | Some x \<Rightarrow> Numero x)"

text \<open>
  \<^verbatim>\<open>
  registro = {}
  for idx, nome in COLUNAS_PDF.items():
      if idx in COLUNAS_NUMERICAS:
          registro[nome] = para_numero(row[idx])
      else:
          registro[nome] = limpar(row[idx])
  \<close>
\<close>

definition campo :: "row \<Rightarrow> nat \<Rightarrow> erro + valor" where
  "campo row idx = (case item row idx of
       Inl e \<Rightarrow> Inl e
     | Inr c \<Rightarrow>
         if idx \<in> set COLUNAS_NUMERICAS
         then (case para_numero c of Inl e \<Rightarrow> Inl e | Inr x \<Rightarrow> Inr (valor_numero x))
         else Inr (valor_texto (limpar c)))"

fun preencher :: "row \<Rightarrow> registro \<Rightarrow> (nat \<times> coluna) list \<Rightarrow> erro + registro" where
  "preencher row registro [] = Inr registro"
| "preencher row registro ((idx, nome) # colunas) =
     (case campo row idx of
        Inl e \<Rightarrow> Inl e
      | Inr v \<Rightarrow> preencher row (definir nome v registro) colunas)"

text \<open>The record of one row: the row is padded, then the loop over the columns runs.\<close>

definition registro_da_linha :: "row \<Rightarrow> erro + registro" where
  "registro_da_linha row =
     preencher (normalizar n_colunas_esperadas row) [] COLUNAS_PDF"

text \<open>Python's truth value of \<^verbatim>\<open>registro.get(nome)\<close>.\<close>

fun verdadeiro :: "valor option \<Rightarrow> bool" where
  "verdadeiro None = False"
| "verdadeiro (Some Nulo) = False"
| "verdadeiro (Some (Texto s)) = (s \<noteq> [])"
| "verdadeiro (Some (Numero x)) = (x \<noteq> Finite 0)"
| "verdadeiro (Some (Inteiro i)) = (i \<noteq> 0)"
| "verdadeiro (Some (Logico b)) = b"

text \<open>
  \<^verbatim>\<open>
  def parsear(linhas):
      registros = []
      n_colunas_esperadas = max(COLUNAS_PDF.keys()) + 1  # 28
      for row in linhas:
          while len(row) < n_colunas_esperadas:
              row.append(None)
          registro = {}
          ...
          if registro.get(COLUNAS_PDF[1]):  # tem Marca
              registros.append(registro)
      return registros
  \<close>
\<close>

fun parsear_linhas :: "registro list \<Rightarrow> row list \<Rightarrow> erro + registro list" where
  "parsear_linhas registros [] = Inr registros"
| "parsear_linhas registros (row # linhas) =
     (case registro_da_linha row of
        Inl e \<Rightarrow> Inl e
      | Inr registro \<Rightarrow>
          parsear_linhas
            (if verdadeiro (map_of registro (Pdf 1)) then registros @ [registro] else registros)
            linhas)"

definition parsear :: "row list \<Rightarrow> erro + registro list" where
  "parsear linhas = parsear_linhas [] linhas"

section \<open>Post-processing: \<^verbatim>\<open>pos_processar\<close>\<close>

text \<open>
  The data frame is built from the records, and \<^verbatim>\<open>pd.to_numeric(..., errors='coerce')\<close>
  is applied to the numeric columns: a missing number becomes \<open>NaN\<close> and a float stays.
  (\<^verbatim>\<open>parsear\<close> puts nothing but floats and \<^verbatim>\<open>None\<close> into these columns.)
\<close>

definition to_numeric :: "valor \<Rightarrow> valor" where
  "to_numeric v = (case v of Nulo \<Rightarrow> Numero NaN | _ \<Rightarrow> v)"

definition linha_df :: "registro \<Rightarrow> registro" where
  "linha_df r = map (\<lambda>(c, v). (c, case c of
       Pdf idx \<Rightarrow> if idx \<in> set COLUNAS_NUMERICAS then to_numeric v else v
     | _ \<Rightarrow> v)) r"

text \<open>Reading a text column and a float column of one row of the frame.\<close>

definition texto_de :: "registro \<Rightarrow> coluna \<Rightarrow> erro + string option" where
  "texto_de r c = (case map_of r c of
       None \<Rightarrow> Inl KeyError
     | Some Nulo \<Rightarrow> Inr None
     | Some (Texto s) \<Rightarrow> Inr (Some s)
     | Some _ \<Rightarrow> Inl AttributeError)"

definition numero_de :: "registro \<Rightarrow> coluna \<Rightarrow> erro + pyfloat" where
  "numero_de r c = (case map_of r c of
       None \<Rightarrow> Inl KeyError
     | Some (Numero x) \<Rightarrow> Inr x
     | Some _ \<Rightarrow> Inl TypeError)"

text \<open>\<^verbatim>\<open>s.upper()\<close>, as a list of code points: three letters of the range have an
  upper case outside of it or of two letters.\<close>

definition upper_char :: "char \<Rightarrow> nat list" where
  "upper_char c = (let n = (of_char c :: nat) in
     if (97 \<le> n \<and> n \<le> 122) \<or> (224 \<le> n \<and> n \<le> 254 \<and> n \<noteq> 247) then [n - 32]
     else if n = 223 then [83, 83]
     else if n = 255 then [376]
     else if n = 181 then [924]
     else [n])"

definition upper :: "string \<Rightarrow> nat list" where
  "upper s = concat (map upper_char s)"

text \<open>
  \<^verbatim>\<open>df[col_prop] = df[col_prop].str.lower().map(mapa).fillna(df[col_prop])\<close> and
  \<^verbatim>\<open>df[col_comb].map(mapa_c).fillna(df[col_comb])\<close>
\<close>

definition mapa :: "(string \<times> string) list" where
  "mapa = [
     (''combust'' @ [a_tilde] @ ''o'', ''Combust'' @ [a_tilde] @ ''o''),
     (''h'' @ [i_acute] @ ''brido'', ''H'' @ [i_acute] @ ''brido''),
     (''plug-in'', ''Plug-in''),
     (''el'' @ [e_acute] @ ''trico'', ''El'' @ [e_acute] @ ''trico''),
     (''hibrido'', ''H'' @ [i_acute] @ ''brido''),
     (''eletrico'', ''El'' @ [e_acute] @ ''trico'')]"

definition mapa_c :: "(string \<times> string) list" where
  "mapa_c = [(''E'', ''El'' @ [e_acute] @ ''trico''), (''G'', ''Gasolina''),
     (''F'', ''Flex''), (''D'', ''Diesel'')]"

definition propulsao_padronizada :: "string option \<Rightarrow> valor" where
  "propulsao_padronizada v = (case v of
       None \<Rightarrow> Nulo
     | Some s \<Rightarrow> (case map_of mapa (lower s) of None \<Rightarrow> Texto s | Some t \<Rightarrow> Texto t))"

definition combustivel_descricao :: "string option \<Rightarrow> valor" where
  "combustivel_descricao v = (case v of
       None \<Rightarrow> Nulo
     | Some s \<Rightarrow> (case map_of mapa_c s of None \<Rightarrow> Texto s | Some t \<Rightarrow> Texto t))"

text \<open>
  \<^verbatim>\<open>re.sub(r'[-\d]', '', str(x)).strip() if pd.notna(x) else None\<close> and
  \<^verbatim>\<open>int(re.search(r'(\d+)', str(x)).group(1)) if pd.notna(x) and re.search(...) else None\<close>
\<close>

definition transmissao_tipo :: "string option \<Rightarrow> valor" where
  "transmissao_tipo v = (case v of
       None \<Rightarrow> Nulo
     | Some s \<Rightarrow> Texto (strip (filter (\<lambda>c. c \<noteq> CHR ''-'' \<and> \<not> isdigit c) s)))"

definition transmissao_velocidades :: "string option \<Rightarrow> valor" where
  "transmissao_velocidades v = (case v of
       None \<Rightarrow> Nulo
     | Some s \<Rightarrow> (let ds = takeWhile isdigit (dropWhile (\<lambda>c. \<not> isdigit c) s) in
         if ds = [] then Nulo else Inteiro (digits_val ds)))"

text \<open>
  \<^verbatim>\<open>df[nome_comb] = (0.55 * df[cid] + 0.45 * df[est]).round(2)\<close>, guarded by
  \<^verbatim>\<open>if cid in df.columns and est in df.columns\<close>. The literals \<^verbatim>\<open>0.55\<close> and
  \<^verbatim>\<open>0.45\<close> are the floats nearest to these decimals.
\<close>

definition consumo_combinado :: "pyfloat \<Rightarrow> pyfloat \<Rightarrow> pyfloat" where
  "consumo_combinado cidade estrada =
     round2 (fadd (fmul (round64 (55 / 100)) cidade) (fmul (round64 (45 / 100)) estrada))"

definition combinar :: "coluna \<Rightarrow> coluna \<Rightarrow> coluna \<Rightarrow> registro \<Rightarrow> erro + registro" where
  "combinar cid est nome_comb r =
     (if map_of r cid = None \<or> map_of r est = None then Inr r
      else (case numero_de r cid of
          Inl e \<Rightarrow> Inl e
        | Inr c \<Rightarrow> (case numero_de r est of
            Inl e \<Rightarrow> Inl e
          | Inr h \<Rightarrow> Inr (definir nome_comb (Numero (consumo_combinado c h)) r))))"

text \<open>
  \<^verbatim>\<open>
  bins = [0, 50, 100, 150, 200, 250, 999]
  labels = ['0-50', '51-100', '101-150', '151-200', '201-250', '250+']
  df['Faixa CO2 Gasolina/Diesel (g/km)'] = pd.cut(
      df[col_co2], bins=bins, labels=labels, include_lowest=True)
  \<close>
  \<^verbatim>\<open>pd.cut\<close> with right-closed bins: \<^verbatim>\<open>ids = bins.searchsorted(x, side='left')\<close>, the
  number of edges below \<open>x\<close> (\<open>NaN\<close> is placed after every edge); with \<^verbatim>\<open>include_lowest\<close> a value equal to the first edge
  gets \<open>ids = 1\<close>; the result is missing when \<open>x\<close> is missing or \<open>ids\<close> is 0 or the
  number of edges, and \<^verbatim>\<open>labels[ids - 1]\<close> otherwise.
\<close>

definition bins :: "rat list" where
  "bins = [0, 50, 100, 150, 200, 250, 999]"

definition labels :: "string list" where
  "labels = [''0-50'', ''51-100'', ''101-150'', ''151-200'', ''201-250'', ''250+'']"

fun abaixo_de :: "rat \<Rightarrow> pyfloat \<Rightarrow> bool" where
  "abaixo_de b (Finite a) = (b < a)"
| "abaixo_de b PInf = True"
| "abaixo_de b NInf = False"
| "abaixo_de b NaN = True"

definition searchsorted :: "rat list \<Rightarrow> pyfloat \<Rightarrow> nat" where
  "searchsorted bs x = length (filter (\<lambda>b. abaixo_de b x) bs)"

definition faixa_co2 :: "pyfloat \<Rightarrow> valor" where
  "faixa_co2 x = (let ids = (if x = Finite (hd bins) then 1 else searchsorted bins x) in
     if x = NaN \<or> ids = length bins \<or> ids = 0 then Nulo
     else Texto (labels ! (ids - 1)))"

text \<open>
  \<^verbatim>\<open>
  df[col_selo] = df[col_selo].apply(
      lambda x: 'SIM' if str(x).strip().upper() == 'SIM' else 'N~AO')
  \<close>
  (the tilde stands on the A). \<^verbatim>\<open>str(None)\<close> is \<^verbatim>\<open>'None'\<close>; the \<^verbatim>\<open>str\<close> of a number or
  of a truth value has no letter S, I or M in any case.
\<close>

abbreviation A_tilde :: char where "A_tilde \<equiv> CHR 0xC3"

definition SIM :: string where "SIM = ''SIM''"
definition NAO :: string where "NAO = ''N'' @ [A_tilde] @ ''O''"

definition selo_de :: "string \<Rightarrow> string" where
  "selo_de s = (if upper (strip s) = map of_char SIM then SIM else NAO)"

definition selo_conpet :: "valor \<Rightarrow> valor" where
  "selo_conpet x = (case x of
       Nulo \<Rightarrow> Texto (selo_de ''None'')
     | Texto s \<Rightarrow> Texto (selo_de s)
     | _ \<Rightarrow> Texto NAO)"

text \<open>
  \<^verbatim>\<open>pos_processar\<close> on one row of the frame, in the source's order: powertrain label,
  transmission type and gear count, fuel description, the three combined consumptions, the
  CO2 bucket, the two flags (read from the standardised powertrain) and the seal. Reading a
  column that the frame lacks is a \<^verbatim>\<open>KeyError\<close>.
\<close>

definition pos_processar_linha :: "registro \<Rightarrow> erro + registro" where
  "pos_processar_linha r =
    (case texto_de r (Pdf 5) of Inl e \<Rightarrow> Inl e | Inr prop \<Rightarrow>
    (case texto_de r (Pdf 6) of Inl e \<Rightarrow> Inl e | Inr transm \<Rightarrow>
    (case texto_de r (Pdf 9) of Inl e \<Rightarrow> Inl e | Inr comb \<Rightarrow>
    (case combinar (Pdf 19) (Pdf 20) Combinado_Gasolina
            (definir Combustivel_Descricao (combustivel_descricao comb)
              (definir Transmissao_Velocidades (transmissao_velocidades transm)
                (definir Transmissao_Tipo (transmissao_tipo transm)
                  (definir (Pdf 5) (propulsao_padronizada prop) r))))
       of Inl e \<Rightarrow> Inl e | Inr r1 \<Rightarrow>
    (case combinar (Pdf 17) (Pdf 18) Combinado_Etanol r1 of Inl e \<Rightarrow> Inl e | Inr r2 \<Rightarrow>
    (case combinar (Pdf 21) (Pdf 22) Combinado_Eletrico r2 of Inl e \<Rightarrow> Inl e | Inr r3 \<Rightarrow>
    (case numero_de r3 (Pdf 15) of Inl e \<Rightarrow> Inl e | Inr co2 \<Rightarrow>
    (case map_of r3 (Pdf 27) of None \<Rightarrow> Inl KeyError | Some selo \<Rightarrow>
       Inr (definir (Pdf 27) (selo_conpet selo)
             (definir Eletrificado
               (Logico (map_of r3 (Pdf 5) \<in> set
                 [Some (Texto (''El'' @ [e_acute] @ ''trico'')),
                  Some (Texto (''H'' @ [i_acute] @ ''brido'')),
                  Some (Texto ''Plug-in'')]))
               (definir Zero_Emissao
                 (Logico (map_of r3 (Pdf 5) = Some (Texto (''El'' @ [e_acute] @ ''trico''))))
                 (definir Faixa_CO2 (faixa_co2 co2) r3))))))))))))"

fun mapear :: "('a \<Rightarrow> erro + 'b) \<Rightarrow> 'a list \<Rightarrow> erro + 'b list" where
  "mapear f [] = Inr []"
| "mapear f (x # xs) =
     (case f x of
        Inl e \<Rightarrow> Inl e
      | Inr y \<Rightarrow> (case mapear f xs of Inl e \<Rightarrow> Inl e | Inr ys \<Rightarrow> Inr (y # ys)))"

text \<open>A frame is the list of its rows. A frame built from no record has no column, and
  \<^verbatim>\<open>pos_processar\<close> fails on its first column access.\<close>

definition pos_processar :: "registro list \<Rightarrow> erro + registro list" where
  "pos_processar df = (if df = [] then Inl KeyError else mapear pos_processar_linha df)"

section \<open>The pipeline: \<^verbatim>\<open>main\<close>\<close>

text \<open>\<^verbatim>\<open>df.drop_duplicates()\<close>: of equal rows the first one stays.\<close>

fun drop_duplicates_de :: "'a list \<Rightarrow> 'a list \<Rightarrow> 'a list" where
  "drop_duplicates_de vistos [] = []"
| "drop_duplicates_de vistos (x # xs) =
     (if x \<in> set vistos then drop_duplicates_de vistos xs
      else x # drop_duplicates_de (x # vistos) xs)"

definition drop_duplicates :: "'a list \<Rightarrow> 'a list" where
  "drop_duplicates df = drop_duplicates_de [] df"

text \<open>
  \<^verbatim>\<open>df.sort_values(['Categoria', 'Marca', 'Modelo', 'Vers~ao'])\<close>: a stable sort by the four
  text columns at positions 0 to 3, strings compared code point by code point, a missing
  value after every string.
\<close>

definition chave_texto :: "valor option \<Rightarrow> bool \<times> string" where
  "chave_texto v = (case v of Some (Texto s) \<Rightarrow> (False, s) | _ \<Rightarrow> (True, []))"

definition chave :: "registro \<Rightarrow> (bool \<times> string) \<times> (bool \<times> string) \<times> (bool \<times> string) \<times> (bool \<times> string)" where
  "chave r = (chave_texto (map_of r (Pdf 0)), chave_texto (map_of r (Pdf 1)),
              chave_texto (map_of r (Pdf 2)), chave_texto (map_of r (Pdf 3)))"

definition sort_values :: "registro list \<Rightarrow> registro list" where
  "sort_values df = sort_key chave df"

text \<open>
  \<^verbatim>\<open>
  linhas = extrair(pdf_path)
  registros = parsear(linhas)
  df = pd.DataFrame(registros)
  for idx in COLUNAS_NUMERICAS: ... df[col] = pd.to_numeric(df[col], errors='coerce')
  df = pos_processar(df)
  df = df.drop_duplicates()
  df = df.sort_values([...]).reset_index(drop=True)
  \<close>
\<close>

definition main :: "row list list list \<Rightarrow> erro + registro list" where
  "main pages = (case parsear (extrair pages) of
       Inl e \<Rightarrow> Inl e
     | Inr registros \<Rightarrow> (case pos_processar (map linha_df registros) of
           Inl e \<Rightarrow> Inl e
         | Inr df \<Rightarrow> Inr (sort_values (drop_duplicates df))))"

section \<open>Facts about the string operations\<close>

lemma starts_with_prefix: "starts_with s a = prefix a s"
  by (induction s a rule: starts_with.induct) auto

lemma str_in_sublist: "str_in a s = sublist a s"
  by (induction s) (auto simp: starts_with_prefix sublist_Cons_right)

lemma dropWhile_snoc_keep: "\<not> P x \<Longrightarrow> \<exists>zs. dropWhile P (ys @ [x]) = zs @ [x]"
  by (induction ys) auto

lemma strip_no_leading_space: "strip s \<noteq> [] \<Longrightarrow> \<not> isspace (hd (strip s))"
proof -
  assume ne: "strip s \<noteq> []"
  let ?d = "dropWhile isspace s"
  have d: "?d \<noteq> []"
  proof
    assume a: "?d = []"
    have "strip s = rev (dropWhile isspace (rev ?d))" by (simp only: strip_def)
    then have "strip s = []" unfolding a by simp
    with ne show False by simp
  qed
  then have h: "\<not> isspace (hd ?d)" by (rule hd_dropWhile)
  from d obtain x ys where xy: "?d = x # ys" by (cases ?d) auto
  with h have nx: "\<not> isspace x" by simp
  from dropWhile_snoc_keep [of isspace x "rev ys"] nx obtain zs
    where "dropWhile isspace (rev ys @ [x]) = zs @ [x]" by blast
  then have "strip s = x # rev zs" by (simp add: strip_def xy)
  then show ?thesis using nx by simp
qed
lemma strip_no_trailing_space: "strip s \<noteq> [] \<Longrightarrow> \<not> isspace (last (strip s))"
proof -
  assume ne: "strip s \<noteq> []"
  then have "dropWhile isspace (rev (dropWhile isspace s)) \<noteq> []"
    by (simp add: strip_def)
  then have "\<not> isspace (hd (dropWhile isspace (rev (dropWhile isspace s))))"
    by (rule hd_dropWhile)
  then show ?thesis using ne by (simp add: strip_def last_rev)
qed

lemma replace_removes: "a \<noteq> b \<Longrightarrow> a \<notin> set (replace a b s)"
  by (auto simp: replace_def)

lemma length_replace: "length (replace a b s) = length s"
  by (simp add: replace_def)

lemma extrair_tabela_filter:
  "extrair_tabela linhas table =
     linhas @ filter (\<lambda>row. 25 \<le> length row \<and> \<not> eh_cabecalho row \<and> eh_veiculo row) table"
  by (induction table arbitrary: linhas) auto

lemma extrair_pagina_filter:
  "extrair_pagina linhas tables =
     linhas @ filter (\<lambda>row. 25 \<le> length row \<and> \<not> eh_cabecalho row \<and> eh_veiculo row)
       (concat tables)"
  by (induction tables arbitrary: linhas) (auto simp: extrair_tabela_filter)

lemma extrair_paginas_filter:
  "extrair_paginas linhas pages =
     linhas @ filter (\<lambda>row. 25 \<le> length row \<and> \<not> eh_cabecalho row \<and> eh_veiculo row)
       (concat (concat pages))"
  by (induction pages arbitrary: linhas) (auto simp: extrair_pagina_filter)

lemma sublist_sep:
  assumes "c \<notin> set k"
  shows "sublist k (a @ c # b) \<longleftrightarrow> sublist k a \<or> sublist k b"
proof
  assume "sublist k (a @ c # b)"
  then consider "sublist k a" | "sublist k (c # b)"
    | xs1 xs2 where "k = xs1 @ xs2" "suffix xs1 a" "prefix xs2 (c # b)"
    by (auto simp: sublist_append)
  then show "sublist k a \<or> sublist k b"
  proof cases
    case 1 then show ?thesis by simp
  next
    case 2
    then have "prefix k (c # b) \<or> sublist k b" by (simp add: sublist_Cons_right)
    moreover have "prefix k (c # b) \<Longrightarrow> k = []"
      using assms by (cases k) auto
    ultimately show ?thesis by auto
  next
    case 3
    have "xs2 = []" using 3(1,3) assms by (cases xs2) auto
    then show ?thesis using 3 by auto
  qed
next
  assume "sublist k a \<or> sublist k b"
  then show "sublist k (a @ c # b)"
    by (auto simp: sublist_append sublist_Cons_right)
qed

lemma sublist_join:
  assumes "kw \<noteq> []" "c \<notin> set kw"
  shows "sublist kw (join [c] xs) \<longleftrightarrow> (\<exists>x\<in>set xs. sublist kw x)"
  using assms by (induction "[c]" xs rule: join.induct) (auto simp: sublist_sep)

lemma lower_char_space: "lower_char space = space"
  by (simp add: lower_char_def space_def)

lemma lower_join: "lower (join [space] xs) = join [space] (map lower xs)"
  by (induction "[space]" xs rule: join.induct) (auto simp: lower_def lower_char_space)

lemma str_in_texto:
  assumes "kw \<noteq> []" "space \<notin> set kw"
  shows "str_in kw (spec_texto_da_linha row) = str_in kw (texto_da_linha row)"
proof -
  have "(\<exists>x\<in>set (map the (filter (\<lambda>c. c \<noteq> None) row)). sublist kw (lower x)) =
        (\<exists>x\<in>set (map the (filter truthy row)). sublist kw (lower x))"
    using assms(1) by (auto simp: truthy_def lower_def split: option.splits) 
  then show ?thesis
    using assms
    by (simp add: str_in_sublist spec_texto_da_linha_def texto_da_linha_def lower_join
        sublist_join)
qed

lemma eh_veiculo_de_iff:
  "eh_veiculo_de cats row \<longleftrightarrow>
     row \<noteq> [] \<and> (\<exists>s. hd row = Some s \<and> s \<noteq> [] \<and>
       (\<exists>cat\<in>set cats. str_in cat (lower (strip s))))"
  by (auto simp: eh_veiculo_de_def list_ex_iff split: list.splits option.splits)

lemma strip_Nil: "strip [] = []"
  by (simp add: strip_def)

lemma picape_in: "''picape'' \<in> set CATEGORIAS" "''picape compacta'' \<in> set CATEGORIAS"
  by (simp_all add: CATEGORIAS_def)

lemma floor_rat_numeral: "\<lfloor>numeral a / numeral b :: rat\<rfloor> = numeral a div numeral b"
  by (metis floor_divide_of_int_eq of_int_numeral)

lemma floor_rat_one: "\<lfloor>1 / numeral b :: rat\<rfloor> = 1 div numeral b"
  by (metis floor_divide_of_int_eq of_int_1 of_int_numeral)

lemma ceiling_rat_numeral:
  "\<lceil>numeral a / numeral b :: rat\<rceil> = - (- numeral a div numeral b)"
  using ceiling_divide_eq_div [of "numeral a" "numeral b", where ?'a = rat] by simp

lemma ceiling_rat_one: "\<lceil>1 / numeral b :: rat\<rceil> = - (- 1 div numeral b)"
  using ceiling_divide_eq_div [of "1" "numeral b", where ?'a = rat] by simp

lemmas round64_eval = round64_def expoente2_def round_half_even_def escala2_def
  compute_bitlen Let_def floor_rat_numeral floor_rat_one ceiling_rat_numeral ceiling_rat_one

lemmas py_float_eval = py_float_def parse_number_def parse_exponent_def split_sign_def
  digits_val_def escala10_def isdigit_def strip_def isspace_def lower_def lower_char_def

lemmas limpar_eval = limpar_def limpar_texto_def limpar_tokens_def replace_def strip_def
  isspace_def newline_def space_def backslash_def apostrophe_def

lemma not_isdigit_dot: "\<not> isdigit (CHR ''.'')"
  by (simp add: isdigit_def)

lemma count_takeWhile_not: "\<not> P c \<Longrightarrow> count_list (takeWhile P s) c = 0"
  by (induction s) auto

lemma count_list_all_not: "list_all P s \<Longrightarrow> \<not> P c \<Longrightarrow> count_list s c = 0"
  by (induction s) auto

lemma split_sign_count:
  "split_sign s = (neg, r) \<Longrightarrow> c \<noteq> CHR ''-'' \<Longrightarrow> c \<noteq> CHR ''+'' \<Longrightarrow>
   count_list r c = count_list s c"
  by (auto simp: split_sign_def split: list.splits if_splits)

lemma parse_exponent_dots:
  "parse_exponent r = Some e \<Longrightarrow> count_list r (CHR ''.'') = 0"
proof (cases r)
  case Nil
  then show ?thesis by simp
next
  case (Cons c r')
  assume p: "parse_exponent r = Some e"
  obtain neg ds where sp: "split_sign r' = (neg, ds)" by (cases "split_sign r'")
  from p Cons sp have c: "c = CHR ''e'' \<or> c = CHR ''E''" and ds: "list_all isdigit ds"
    by (auto simp: parse_exponent_def split: if_splits)
  from ds have "count_list ds (CHR ''.'') = 0"
    by (rule count_list_all_not) (rule not_isdigit_dot)
  moreover have "count_list ds (CHR ''.'') = count_list r' (CHR ''.'')"
    using sp by (rule split_sign_count) simp_all
  ultimately show ?thesis using c Cons by auto
qed

lemma parse_number_dots:
  assumes "parse_number r = Some q"
  shows "count_list r (CHR ''.'') \<le> 1"
proof -
  let ?d = "CHR ''.''"
  have r: "r = takeWhile isdigit r @ dropWhile isdigit r" by simp
  have ip: "count_list (takeWhile isdigit r) ?d = 0"
    by (rule count_takeWhile_not) (rule not_isdigit_dot)
  have "count_list (dropWhile isdigit r) ?d \<le> 1"
  proof (cases "dropWhile isdigit r")
    case Nil
    show ?thesis unfolding Nil by simp
  next
    case (Cons c r')
    show ?thesis
    proof (cases "c = ?d")
      case True
      with assms Cons obtain ex where "parse_exponent (dropWhile isdigit r') = Some ex"
        by (auto simp: parse_number_def Let_def split: if_splits option.splits)
      then have "count_list (dropWhile isdigit r') ?d = 0" by (rule parse_exponent_dots)
      moreover have "count_list (takeWhile isdigit r') ?d = 0"
        by (rule count_takeWhile_not) (rule not_isdigit_dot)
      moreover have "count_list r' ?d =
          count_list (takeWhile isdigit r') ?d + count_list (dropWhile isdigit r') ?d"
        by (metis count_list_append takeWhile_dropWhile_id)
      ultimately show ?thesis using Cons True by simp
    next
      case False
      with assms Cons obtain ex where "parse_exponent (c # r') = Some ex"
        by (auto simp: parse_number_def Let_def split: if_splits option.splits)
      then have "count_list (c # r') ?d = 0" by (rule parse_exponent_dots)
      then show ?thesis using Cons by simp
    qed
  qed
  moreover have "count_list r ?d =
      count_list (takeWhile isdigit r) ?d + count_list (dropWhile isdigit r) ?d"
    by (metis count_list_append takeWhile_dropWhile_id)
  ultimately show ?thesis using ip by simp
qed

lemma count_dropWhile_not: "\<not> P c \<Longrightarrow> count_list (dropWhile P s) c = count_list s c"
  by (induction s) auto

lemma count_list_rev: "count_list (rev s) c = count_list s c"
  by (induction s) auto

lemma count_strip: "\<not> isspace c \<Longrightarrow> count_list (strip s) c = count_list s c"
  by (simp add: strip_def count_list_rev count_dropWhile_not)

lemma count_filter_other: "P c \<Longrightarrow> count_list (filter P s) c = count_list s c"
  by (induction s) auto

lemma count_lower_word:
  "lower r = w \<Longrightarrow> CHR ''.'' \<notin> set w \<Longrightarrow> count_list r (CHR ''.'') = 0"
proof -
  assume w: "lower r = w" and n: "CHR ''.'' \<notin> set w"
  have "lower_char (CHR ''.'') = CHR ''.''" by (simp add: lower_char_def)
  then have "CHR ''.'' \<in> set r \<Longrightarrow> CHR ''.'' \<in> set (lower r)"
    by (force simp: lower_def)
  with w n show ?thesis by (auto simp: count_list_0_iff)
qed

lemma py_float_dots:
  assumes "py_float s = Inr x"
  shows "count_list s (CHR ''.'') \<le> 1"
proof -
  let ?d = "CHR ''.''"
  let ?t = "filter (\<lambda>c. c \<noteq> CHR ''_'') (strip s)"
  obtain neg r where sp: "split_sign ?t = (neg, r)" by (cases "split_sign ?t")
  have cnt: "count_list r ?d = count_list s ?d"
  proof -
    have "count_list r ?d = count_list ?t ?d"
      using sp by (rule split_sign_count) simp_all
    also have "\<dots> = count_list (strip s) ?d" by (rule count_filter_other) simp
    also have "\<dots> = count_list s ?d" by (rule count_strip) (simp add: isspace_def)
    finally show ?thesis .
  qed
  from assms sp consider "lower r = ''inf''" | "lower r = ''infinity''" | "lower r = ''nan''"
    | q where "parse_number r = Some q"
    by (auto simp: py_float_def Let_def split: if_splits option.splits)
  then have "count_list r ?d \<le> 1"
  proof cases
    case 1 then show ?thesis using count_lower_word [of r "''inf''"] by simp
  next
    case 2 then show ?thesis using count_lower_word [of r "''infinity''"] by simp
  next
    case 3 then show ?thesis using count_lower_word [of r "''nan''"] by simp
  next
    case 4 then show ?thesis by (rule parse_number_dots)
  qed
  with cnt show ?thesis by simp
qed

lemma py_float_error: "py_float s = Inl e \<Longrightarrow> e = ValueError"
  by (auto simp: py_float_def Let_def split: if_splits option.splits prod.splits)

lemma count_replace_target:
  "a \<noteq> b \<Longrightarrow> count_list (replace a b s) b = count_list s a + count_list s b"
  by (induction s) (auto simp: replace_def)

lemma count_replace_other:
  "c \<noteq> a \<Longrightarrow> c \<noteq> b \<Longrightarrow> count_list (replace a b s) c = count_list s c"
  by (induction s) (auto simp: replace_def)

lemma count_limpar_texto_comma:
  "count_list (limpar_texto s) (CHR '','') = count_list s (CHR '','')"
proof -
  have "count_list (limpar_texto s) (CHR '','') = count_list (strip s) (CHR '','')"
    unfolding limpar_texto_def
    by (rule count_replace_other) (simp_all add: newline_def space_def)
  also have "\<dots> = count_list s (CHR '','')"
    by (rule count_strip) (simp add: isspace_def)
  finally show ?thesis .
qed

lemma para_numero_two_commas:
  assumes "2 \<le> count_list s (CHR '','')"
  shows "para_numero (Some s) = Inr None"
proof (cases "limpar (Some s)")
  case None
  then show ?thesis by (simp add: para_numero_def)
next
  case (Some v)
  then have v: "v = limpar_texto s"
    by (auto simp: limpar_def Let_def split: if_splits)
  have "count_list (replace (CHR '','') (CHR ''.'') v) (CHR ''.'')
        = count_list v (CHR '','') + count_list v (CHR ''.'')"
    by (rule count_replace_target) simp
  then have "2 \<le> count_list (replace (CHR '','') (CHR ''.'') v) (CHR ''.'')"
    using assms by (simp add: v count_limpar_texto_comma)
  then have "\<forall>x. py_float (replace (CHR '','') (CHR ''.'') v) \<noteq> Inr x"
    using py_float_dots by fastforce
  then obtain e where e: "py_float (replace (CHR '','') (CHR ''.'') v) = Inl e"
    by (cases "py_float (replace (CHR '','') (CHR ''.'') v)") auto
  then have "e = ValueError" by (rule py_float_error)
  with e Some show ?thesis by (simp add: para_numero_def)
qed

lemma para_numero_Inr:
  "para_numero val = Inr (case limpar val of
       None \<Rightarrow> None
     | Some v \<Rightarrow> (case py_float (replace (CHR '','') (CHR ''.'') v) of
           Inr x \<Rightarrow> Some x
         | Inl e \<Rightarrow> None))"
  by (auto simp: para_numero_def split: option.splits sum.splits dest: py_float_error)

lemma para_numero_12_3_comma: "para_numero (Some ''12,3'') = Inr (Some (round64 (123 / 10)))"
  by (simp add: para_numero_def limpar_eval py_float_eval)

lemma para_numero_12_3_point: "para_numero (Some ''12.3'') = Inr (Some (round64 (123 / 10)))"
  by (simp add: para_numero_def limpar_eval py_float_eval)

lemma para_numero_1_234: "para_numero (Some ''1,234'') = Inr (Some (round64 (1234 / 1000)))"
  by (simp add: para_numero_def limpar_eval py_float_eval)

lemma round64_1_234: "round64 (1234 / 1000) = Finite (5557441940175192 / 4503599627370496)"
  by (simp add: round64_eval)

lemma round64_12_3: "round64 (123 / 10) = Finite (3462142213541069 / 281474976710656)"
  by (simp add: round64_eval)

lemma dropWhile_replace:
  "\<not> isspace a \<Longrightarrow> \<not> isspace b \<Longrightarrow>
   dropWhile isspace (replace a b s) = replace a b (dropWhile isspace s)"
  by (induction s) (auto simp: replace_def)

lemma rev_replace: "rev (replace a b s) = replace a b (rev s)"
  by (simp add: replace_def rev_map)

lemma strip_replace:
  "\<not> isspace a \<Longrightarrow> \<not> isspace b \<Longrightarrow> strip (replace a b s) = replace a b (strip s)"
  by (simp add: strip_def dropWhile_replace rev_replace)

lemma replace_commute:
  "a \<noteq> c \<Longrightarrow> a \<noteq> d \<Longrightarrow> b \<noteq> c \<Longrightarrow>
   replace a b (replace c d s) = replace c d (replace a b s)"
  by (induction s) (auto simp: replace_def)

lemma replace_idem: "a \<noteq> b \<Longrightarrow> replace a b (replace a b s) = replace a b s"
  by (induction s) (auto simp: replace_def)

lemma replace_absent: "a \<notin> set s \<Longrightarrow> replace a b s = s"
  by (induction s) (auto simp: replace_def)

lemma limpar_texto_replace:
  "limpar_texto (replace (CHR '','') (CHR ''.'') s) =
   replace (CHR '','') (CHR ''.'') (limpar_texto s)"
proof -
  have "strip (replace (CHR '','') (CHR ''.'') s) = replace (CHR '','') (CHR ''.'') (strip s)"
    by (rule strip_replace) (simp_all add: isspace_def)
  then show ?thesis
    unfolding limpar_texto_def
    by (simp add: replace_commute newline_def space_def)
qed

lemma py_float_tokens: "t \<in> set limpar_tokens \<Longrightarrow> py_float t = Inl ValueError"
  by (auto simp: limpar_tokens_def py_float_eval backslash_def apostrophe_def Let_def)

lemma tokens_no_comma: "t \<in> set limpar_tokens \<Longrightarrow> CHR '','' \<notin> set t"
  by (auto simp: limpar_tokens_def backslash_def apostrophe_def)

lemma para_numero_comma_point:
  "para_numero (Some (replace (CHR '','') (CHR ''.'') s)) = para_numero (Some s)"
proof -
  let ?rp = "replace (CHR '','') (CHR ''.'')"
  let ?v = "limpar_texto s"
  have idem: "?rp (?rp ?v) = ?rp ?v" by (rule replace_idem) simp
  show ?thesis
  proof (cases "?v \<in> set limpar_tokens")
    case True
    then have "?rp ?v = ?v" by (intro replace_absent tokens_no_comma)
    with True show ?thesis
      by (simp add: para_numero_def limpar_def limpar_texto_replace)
  next
    case False
    show ?thesis
    proof (cases "?rp ?v \<in> set limpar_tokens")
      case True
      then have "py_float (?rp ?v) = Inl ValueError" by (rule py_float_tokens)
      with True False show ?thesis
        by (simp add: para_numero_def limpar_def limpar_texto_replace)
    next
      case False
      with \<open>?v \<notin> set limpar_tokens\<close> show ?thesis
        by (simp add: para_numero_def limpar_def limpar_texto_replace idem)
    qed
  qed
qed

section \<open>Claims\<close>

text \<open>
  C3, as amended. Cell cleaning returns null on a null input. On a string it works on the
  trimmed value with every line break replaced by a space: the result is null exactly when
  that value is one of nine tokens, compared as whole strings (the eight of the claim and,
  ninth, two backslashes followed by an apostrophe), and otherwise it is that value, which
  is then non-empty, has no white space at either end and holds no line break.
\<close>

theorem limpar_placeholders:
  "limpar None = None \<and>
   (limpar (Some s) = None \<longleftrightarrow>
      limpar_texto s \<in> {[], [backslash], ''-'', [backslash, backslash],
        [backslash, backslash, apostrophe], ''ND'', ''N.A.'', ''N/A'', ''--''}) \<and>
   (limpar (Some s) \<noteq> None \<longrightarrow>
      limpar (Some s) = Some (replace newline space (strip s)) \<and>
      replace newline space (strip s) \<noteq> [] \<and>
      \<not> isspace (hd (strip s)) \<and> \<not> isspace (last (strip s)) \<and>
      newline \<notin> set (replace newline space (strip s)))"
proof (intro conjI impI)
  show "limpar None = None" by (simp add: limpar_def)
  show "limpar (Some s) = None \<longleftrightarrow>
     limpar_texto s \<in> {[], [backslash], ''-'', [backslash, backslash],
       [backslash, backslash, apostrophe], ''ND'', ''N.A.'', ''N/A'', ''--''}"
    by (simp add: limpar_def limpar_tokens_def Let_def)
next
  assume nn: "limpar (Some s) \<noteq> None"
  then have v: "limpar (Some s) = Some (limpar_texto s)" and ne: "limpar_texto s \<noteq> []"
    by (auto simp: limpar_def limpar_tokens_def Let_def split: if_splits)
  from ne have sne: "strip s \<noteq> []" by (auto simp: limpar_texto_def replace_def)
  have "newline \<noteq> space" by (simp add: newline_def space_def)
  then show "newline \<notin> set (replace newline space (strip s))" by (rule replace_removes)
  show "limpar (Some s) = Some (replace newline space (strip s))"
    using v by (simp add: limpar_texto_def)
  show "replace newline space (strip s) \<noteq> []"
    using ne by (simp add: limpar_texto_def)
  show "\<not> isspace (hd (strip s))" by (rule strip_no_leading_space [OF sne])
  show "\<not> isspace (last (strip s))" by (rule strip_no_trailing_space [OF sne])
qed

text \<open>The amended C3 at a cell with white space around and a line break inside.\<close>

theorem limpar_placeholders_witness:
  "limpar (Some ([space] @ ''a'' @ [newline] @ ''b'' @ [space])) \<noteq> None \<and>
   limpar (Some ([space] @ ''a'' @ [newline] @ ''b'' @ [space])) = Some ''a b''"
  using limpar_placeholders [of "[space] @ ''a'' @ [newline] @ ''b'' @ [space]"]
  by (simp add: limpar_texto_def strip_def isspace_def replace_def space_def newline_def
      backslash_def apostrophe_def)

text \<open>
  C3, as stated, fails: the string of two backslashes followed by an apostrophe is cleaned
  to null, and it is none of the eight tokens of the claim.
\<close>

theorem limpar_apostrophe_token:
  "limpar (Some [backslash, backslash, apostrophe]) = None \<and>
   limpar_texto [backslash, backslash, apostrophe] \<notin> set spec_placeholders"
  by (simp add: limpar_def limpar_tokens_def limpar_texto_def spec_placeholders_def
      strip_def isspace_def replace_def backslash_def apostrophe_def newline_def space_def)

text \<open>
  C1. The extractor returns, in document order, exactly the rows of the extracted tables
  that have at least 25 cells, fail the header test and pass the vehicle-row test. A row
  whose lowercased joined text contains \<open>categoria\<close> is a header and is never returned,
  whether the text joins the non-empty cells, as the code does, or all non-null cells, as
  the specification says.
\<close>

theorem extrair_keeps:
  "extrair pages =
     filter (\<lambda>row. 25 \<le> length row \<and> \<not> eh_cabecalho row \<and> eh_veiculo row)
       (concat (concat pages)) \<and>
   (row \<in> set (extrair pages) \<longleftrightarrow>
      row \<in> set (concat (concat pages)) \<and>
      25 \<le> length row \<and> \<not> eh_cabecalho row \<and> eh_veiculo row) \<and>
   (str_in ''categoria'' (texto_da_linha row) \<longrightarrow>
      eh_cabecalho row \<and> row \<notin> set (extrair pages)) \<and>
   (str_in ''categoria'' (spec_texto_da_linha row) \<longrightarrow>
      eh_cabecalho row \<and> row \<notin> set (extrair pages))"
proof -
  have eq: "extrair pages =
     filter (\<lambda>row. 25 \<le> length row \<and> \<not> eh_cabecalho row \<and> eh_veiculo row)
       (concat (concat pages))"
    by (simp add: extrair_def extrair_paginas_filter)
  have cab: "eh_cabecalho row" if "str_in ''categoria'' (texto_da_linha row)"
    using that by (simp add: eh_cabecalho_def PALAVRAS_CABECALHO_def)
  have sp: "str_in ''categoria'' (spec_texto_da_linha row) =
            str_in ''categoria'' (texto_da_linha row)"
    by (rule str_in_texto) (simp_all add: space_def)
  have out: "row \<notin> set (extrair pages)" if "eh_cabecalho row"
    using that by (simp add: eq)
  show ?thesis
    using eq cab sp out by auto
qed

text \<open>C1 at a 25-cell row that starts with a vehicle category and holds the word
  \<open>Categoria\<close> in its second cell.\<close>

theorem extrair_keeps_witness:
  "str_in ''categoria''
     (spec_texto_da_linha (Some ''Picape'' # Some ''Categoria'' # replicate 23 None)) \<and>
   eh_veiculo (Some ''Picape'' # Some ''Categoria'' # replicate 23 None) \<and>
   25 \<le> length (Some ''Picape'' # Some ''Categoria'' # replicate 23 None) \<and>
   Some ''Picape'' # Some ''Categoria'' # replicate 23 None
     \<notin> set (extrair [[[Some ''Picape'' # Some ''Categoria'' # replicate 23 None]]])"
proof -
  let ?r = "Some ''Picape'' # Some ''Categoria'' # replicate 23 None"
  have h: "str_in ''categoria'' (spec_texto_da_linha ?r)" by code_simp
  have v: "eh_veiculo ?r" by code_simp
  show ?thesis
    using extrair_keeps [of "[[[?r]]]" ?r] h v by simp
qed

text \<open>
  C4. The vehicle-row test accepts a row exactly when the row is non-empty, its first cell is
  a non-empty string, and the trimmed, lowercased first cell contains one of the 15 category
  names. The answer depends only on the set of names, not on their order; the first cell
  \<open>Utilit\'ario Esportivo Grande 4x4\<close> is accepted, and so is every first cell that contains
  \<open>picape\<close> or \<open>picape compacta\<close>, under any order of the list.
\<close>

theorem eh_veiculo_accepts:
  "(eh_veiculo row \<longleftrightarrow>
      row \<noteq> [] \<and> (\<exists>s. hd row = Some s \<and> s \<noteq> [] \<and>
        (\<exists>cat\<in>set CATEGORIAS. str_in cat (lower (strip s))))) \<and>
   length CATEGORIAS = 15 \<and> distinct CATEGORIAS \<and>
   (set cats = set CATEGORIAS \<longrightarrow> eh_veiculo_de cats row = eh_veiculo row) \<and>
   eh_veiculo (Some (''Utilit'' @ [a_acute] @ ''rio Esportivo Grande 4x4'') # rest) \<and>
   (set cats = set CATEGORIAS \<and>
    (str_in ''picape'' (lower (strip s)) \<or> str_in ''picape compacta'' (lower (strip s))) \<longrightarrow>
      eh_veiculo_de cats (Some s # rest))"
proof (intro conjI impI)
  show "eh_veiculo row \<longleftrightarrow>
      row \<noteq> [] \<and> (\<exists>s. hd row = Some s \<and> s \<noteq> [] \<and>
        (\<exists>cat\<in>set CATEGORIAS. str_in cat (lower (strip s))))"
    by (simp add: eh_veiculo_def eh_veiculo_de_iff)
  show "length CATEGORIAS = 15" by (simp add: CATEGORIAS_def)
  show "distinct CATEGORIAS" by (simp add: CATEGORIAS_def)
  show "eh_veiculo_de cats row = eh_veiculo row" if "set cats = set CATEGORIAS"
    using that by (simp add: eh_veiculo_def eh_veiculo_de_iff)
  show "eh_veiculo (Some (''Utilit'' @ [a_acute] @ ''rio Esportivo Grande 4x4'') # rest)"
  proof -
    have "str_in (''utilit'' @ [a_acute] @ ''rio esportivo grande 4x4'')
            (lower (strip (''Utilit'' @ [a_acute] @ ''rio Esportivo Grande 4x4'')))"
      by code_simp
    moreover have "''utilit'' @ [a_acute] @ ''rio esportivo grande 4x4'' \<in> set CATEGORIAS"
      by (simp add: CATEGORIAS_def)
    ultimately show ?thesis
      unfolding eh_veiculo_def eh_veiculo_de_iff by (intro conjI exI [of _ "''Utilit'' @ [a_acute] @ ''rio Esportivo Grande 4x4''"] bexI [of _ "''utilit'' @ [a_acute] @ ''rio esportivo grande 4x4''"]) simp_all
  qed
next
  assume a: "set cats = set CATEGORIAS \<and>
    (str_in ''picape'' (lower (strip s)) \<or> str_in ''picape compacta'' (lower (strip s)))"
  then have ne: "s \<noteq> []" by (auto simp: strip_Nil lower_def)
  from a picape_in have "\<exists>cat\<in>set cats. str_in cat (lower (strip s))" by auto
  with ne show "eh_veiculo_de cats (Some s # rest)"
    by (simp add: eh_veiculo_de_iff)
qed

text \<open>C4 with the category list reversed.\<close>

theorem eh_veiculo_accepts_witness:
  "set (rev CATEGORIAS) = set CATEGORIAS \<and>
   str_in ''picape'' (lower (strip '' Picape Compacta '')) \<and>
   eh_veiculo_de (rev CATEGORIAS) [Some '' Picape Compacta ''] \<and>
   eh_veiculo_de (rev CATEGORIAS) [Some ''Sub Compacto''] = eh_veiculo [Some ''Sub Compacto'']"
proof -
  have h: "str_in ''picape'' (lower (strip '' Picape Compacta ''))" by code_simp
  show ?thesis
    using eh_veiculo_accepts [of "[Some ''Sub Compacto'']" "rev CATEGORIAS" "[]" "'' Picape Compacta ''"] h
    by simp
qed

text \<open>
  C6. Numeric cleaning never raises. It cleans the cell first and returns null when the
  cleaned cell is null; otherwise it replaces the comma by a point and returns the float
  that \<^verbatim>\<open>float\<close> parses, or null when \<^verbatim>\<open>float\<close> rejects the text. The strings
  \<open>12,3\<close> and \<open>12.3\<close> give the same float, the binary64 number nearest to 12.3.
\<close>

theorem para_numero_total:
  "para_numero val = Inr (case limpar val of
       None \<Rightarrow> None
     | Some v \<Rightarrow> (case py_float (replace (CHR '','') (CHR ''.'') v) of
           Inr x \<Rightarrow> Some x
         | Inl e \<Rightarrow> None)) \<and>
   para_numero (Some ''12,3'') = Inr (Some (round64 (123 / 10))) \<and>
   para_numero (Some ''12.3'') = Inr (Some (round64 (123 / 10))) \<and>
   round64 (123 / 10) = Finite (3462142213541069 / 281474976710656)"
  using para_numero_Inr [of val] para_numero_12_3_comma para_numero_12_3_point round64_12_3
  by (intro conjI)

text \<open>
  C10. Numeric cleaning leaves no comma in the text it parses: cleaning a string gives the
  same result as cleaning it with every comma written as a point. A string with two or more
  commas gives null, as \<open>1,234,5\<close> does, and \<open>1,234\<close> gives the float nearest to 1.234,
  not 1234.
\<close>

theorem para_numero_every_comma:
  "CHR '','' \<notin> set (replace (CHR '','') (CHR ''.'') v) \<and>
   para_numero (Some (replace (CHR '','') (CHR ''.'') s)) = para_numero (Some s) \<and>
   (2 \<le> count_list s (CHR '','') \<longrightarrow> para_numero (Some s) = Inr None) \<and>
   para_numero (Some ''1,234,5'') = Inr None \<and>
   para_numero (Some ''1,234'') = Inr (Some (round64 (1234 / 1000))) \<and>
   round64 (1234 / 1000) = Finite (694680242521899 / 562949953421312) \<and>
   round64 (1234 / 1000) \<noteq> Finite 1234"
proof (intro conjI impI)
  show "CHR '','' \<notin> set (replace (CHR '','') (CHR ''.'') v)"
    by (rule replace_removes) simp
  show "para_numero (Some (replace (CHR '','') (CHR ''.'') s)) = para_numero (Some s)"
    by (rule para_numero_comma_point)
  show "para_numero (Some s) = Inr None" if "2 \<le> count_list s (CHR '','')"
    using that by (rule para_numero_two_commas)
  show "para_numero (Some ''1,234,5'') = Inr None"
    by (rule para_numero_two_commas) simp
  show "para_numero (Some ''1,234'') = Inr (Some (round64 (1234 / 1000)))"
    by (rule para_numero_1_234)
  show "round64 (1234 / 1000) = Finite (694680242521899 / 562949953421312)"
    using round64_1_234 by simp
  show "round64 (1234 / 1000) \<noteq> Finite 1234"
    using round64_1_234 by simp
qed

text \<open>C10 at a string with two commas.\<close>

theorem para_numero_every_comma_witness:
  "2 \<le> count_list ''0,5,'' (CHR '','') \<and> para_numero (Some ''0,5,'') = Inr None"
  using para_numero_every_comma [of "[]" "''0,5,''"] by simp

end
